theory Spec2Isabelle
  imports Main "HOL-Library.Word"
begin

section \<open>Column types and record schemas\<close>

text \<open>
  The two scripts of the repository delegate every computation to the query engine
  (etl.py) and to the cloud client (run.py).  The embedding follows the scripts line by
  line; the behaviour of an engine operator that the scripts call is either written out
  (filter, projection, duplicate removal, inner join, overwrite of a table, the id
  generator) or, where it is a calendar or floating-point routine of the engine, taken as
  a field of the \<open>engine\<close> record below.

  Every column of both schemas is nullable: the JSON reader runs in PERMISSIVE mode, so a
  missing or ill-typed field is read as null.  A nullable column is an \<open>option\<close>.
  A FloatType column is carried as its 32-bit pattern and never computed with.
\<close>

type_synonym float32 = "32 word"
type_synonym double = "64 word"

text \<open>A timestamp is a number of microseconds since the epoch.\<close>

type_synonym timestamp = int

text \<open>
  \<open>schema["log_data"]\<close>; the columns \<open>length\<close> and \<open>method\<close> are named \<open>length_col\<close> and
  \<open>method_col\<close> here.
\<close>

record log_data =
  artist :: "string option"
  auth :: "string option"
  firstName :: "string option"
  gender :: "string option"
  itemInSession :: "int option"
  lastName :: "string option"
  length_col :: "float32 option"
  level :: "string option"
  location :: "string option"
  method_col :: "string option"
  page :: "string option"
  registration :: "float32 option"
  sessionId :: "int option"
  song :: "string option"
  status :: "int option"
  ts :: "string option"
  userAgent :: "string option"
  userId :: "string option"

text \<open>The log frame after \<open>withColumn("start_time", ...)\<close>.\<close>

record log_event = log_data +
  start_time :: "timestamp option"

text \<open>\<open>schema["song_data"]\<close>.\<close>

record song_data =
  artist_id :: "string option"
  artist_latitude :: "float32 option"
  artist_location :: "string option"
  artist_longitude :: "float32 option"
  artist_name :: "string option"
  duration :: "float32 option"
  num_songs :: "int option"
  song_id :: "string option"
  title :: "string option"
  year :: "int option"

text \<open>The rows of the five output tables.\<close>

record songs_row =
  song_id :: "string option"
  title :: "string option"
  artist_id :: "string option"
  year :: "int option"
  duration :: "float32 option"

record artists_row =
  artist_id :: "string option"
  name :: "string option"
  location :: "string option"
  latitude :: "float32 option"
  longitude :: "float32 option"

record users_row =
  user_id :: "string option"
  first_name :: "string option"
  last_name :: "string option"
  gender :: "string option"
  level :: "string option"

record time_row =
  start_time :: "timestamp option"
  hour :: "int option"
  day :: "int option"
  week :: "int option"
  month :: "int option"
  year :: "int option"
  weekday :: "int option"

record songplays_row =
  songplay_id :: int
  start_time :: "timestamp option"
  user_id :: "string option"
  level :: "string option"
  song_id :: "string option"
  artist_id :: "string option"
  session_id :: "int option"
  location :: "string option"
  user_agent :: "string option"

text \<open>
  A persisted table is the list of its rows.  The songplays table keeps the part files
  apart (one list of rows per partition of the frame that was written), since its ids
  depend on the partition a row was in.
\<close>

datatype table =
  SongsTable "songs_row list"
  | ArtistsTable "artists_row list"
  | UsersTable "users_row list"
  | TimeTable "time_row list"
  | SongplaysTable "songplays_row list list"

text \<open>The output location: a map from paths to the table stored there.\<close>

type_synonym store = "string \<Rightarrow> table option"

section \<open>The engine\<close>

text \<open>The places of etl.py where a call into the engine can raise.\<close>

datatype site =
  ReadSongData
  | WriteSongs
  | WriteArtists
  | ReadLogData
  | WriteUsers
  | WriteTime
  | ReadSongs
  | JoinSongs
  | WriteSongplays
  | CountRead string

datatype error =
  ReadError string
  | WriteError string
  | SchemaError string
  | JoinError

text \<open>
  What the scripts do not determine is a parameter:
  \<^item> \<open>fails\<close>: whether the engine raises at a site;
  \<^item> \<open>leftover\<close>: what a write that raised leaves at its path, from what was there;
  \<^item> \<open>divide\<close>, \<open>from_unixtime\<close>, \<open>to_timestamp\<close> and the six calendar extractors:
    the engine's arithmetic on doubles and its calendar;
  \<^item> \<open>join_partitions\<close>: the physical partitions into which the engine lays out the
    result of the join.
\<close>

record engine =
  fails :: "site \<Rightarrow> bool"
  leftover :: "string \<Rightarrow> table option \<Rightarrow> table option"
  divide :: "string option \<Rightarrow> int \<Rightarrow> double option"
  from_unixtime :: "double option \<Rightarrow> string option"
  to_timestamp :: "string option \<Rightarrow> string \<Rightarrow> timestamp option"
  hour_of :: "timestamp option \<Rightarrow> int option"
  dayofmonth :: "timestamp option \<Rightarrow> int option"
  weekofyear :: "timestamp option \<Rightarrow> int option"
  month_of :: "timestamp option \<Rightarrow> int option"
  year_of :: "timestamp option \<Rightarrow> int option"
  dayofweek :: "timestamp option \<Rightarrow> int option"
  join_partitions ::
    "(log_event \<times> songs_row) list \<Rightarrow> (log_event \<times> songs_row) list list"

text \<open>
  An engine lays out the rows it is given, no others: the condition under which the
  statements about the origin of a songplays row are made.
\<close>

definition keeps_rows :: "engine \<Rightarrow> bool" where
  "keeps_rows spark \<longleftrightarrow> (\<forall>xs. set (concat (join_partitions spark xs)) \<subseteq> set xs)"

subsection \<open>Frame operators\<close>

text \<open>SQL equality: null when either side is null.\<close>

definition sql_eq :: "'a option \<Rightarrow> 'a option \<Rightarrow> bool option" where
  "sql_eq a b = (case a of None \<Rightarrow> None
                 | Some x \<Rightarrow> (case b of None \<Rightarrow> None | Some y \<Rightarrow> Some (x = y)))"

text \<open>\<open>where\<close> keeps the rows on which the condition is true (neither false nor null).\<close>

definition where_rows :: "('r \<Rightarrow> bool option) \<Rightarrow> 'r list \<Rightarrow> 'r list" where
  "where_rows c df = filter (\<lambda>r. c r = Some True) df"

text \<open>\<open>dropDuplicates()\<close> with no column subset: one row of each class of equal rows.\<close>

definition dropDuplicates :: "'r list \<Rightarrow> 'r list" where
  "dropDuplicates df = remdups df"

text \<open>\<open>join(..., how = "inner")\<close>: every pair of rows on which the condition is true.\<close>

definition join_inner :: "('a \<Rightarrow> 'b \<Rightarrow> bool option) \<Rightarrow> 'a list \<Rightarrow> 'b list \<Rightarrow> ('a \<times> 'b) list" where
  "join_inner c l r = concat (map (\<lambda>a. map (\<lambda>b. (a, b)) (filter (\<lambda>b. c a b = Some True) r)) l)"

text \<open>
  \<open>os.path.join\<close> of two components on a POSIX system.
\<close>

definition path_join :: "string \<Rightarrow> string \<Rightarrow> string" where
  "path_join a b =
     (if b \<noteq> [] \<and> hd b = CHR ''/'' then b
      else if a = [] \<or> last a = CHR ''/'' then a @ b
      else a @ ''/'' @ b)"

text \<open>
  \<open>df.write.parquet(path, mode = "overwrite")\<close>: the table at the path is replaced.  When
  the engine raises, the path holds what the engine left there and the error propagates.
  A table is stored as the rows of the frame that was written; the directories that
  \<open>partitionBy\<close> lays out, and the types that a later read infers for the partition
  columns from their names, are not part of the model.
\<close>

definition write_parquet :: "engine \<Rightarrow> site \<Rightarrow> string \<Rightarrow> table \<Rightarrow> store \<Rightarrow> store \<times> (error + unit)" where
  "write_parquet spark s path t fs =
     (if fails spark s then (fs(path := leftover spark path (fs path)), Inl (WriteError path))
      else (fs(path \<mapsto> t), Inr ()))"

text \<open>\<open>spark.read.parquet(path)\<close>: raises when the engine does or nothing is stored there.\<close>

definition read_parquet :: "engine \<Rightarrow> site \<Rightarrow> string \<Rightarrow> store \<Rightarrow> error + table" where
  "read_parquet spark s path fs =
     (if fails spark s then Inl (ReadError path)
      else (case fs path of None \<Rightarrow> Inl (ReadError path) | Some t \<Rightarrow> Inr t))"

text \<open>\<open>df.count()\<close>.\<close>

fun count :: "table \<Rightarrow> nat" where
  "count (SongsTable rows) = length rows"
| "count (ArtistsTable rows) = length rows"
| "count (UsersTable rows) = length rows"
| "count (TimeTable rows) = length rows"
| "count (SongplaysTable parts) = length (concat parts)"

subsection \<open>The id generator\<close>

text \<open>
  A 64-bit signed integer, as an \<open>int\<close> with the wrap-around written out.
\<close>

definition to_long :: "int \<Rightarrow> int" where
  "to_long x = (x + 2 ^ 63) mod 2 ^ 64 - 2 ^ 63"

text \<open>
  \<open>monotonically_increasing_id()\<close>: the partition index shifted left by 33 bits plus the
  number of the row within its partition, counted from 0.
\<close>

definition monotonically_increasing_id :: "nat \<Rightarrow> nat \<Rightarrow> int" where
  "monotonically_increasing_id p j = to_long (to_long (int p * 2 ^ 33) + int j)"

text \<open>\<open>df.withColumn("songplay_id", F.monotonically_increasing_id() + 1)\<close>.\<close>

definition number_partition :: "nat \<Rightarrow> 'r list \<Rightarrow> (int \<times> 'r) list" where
  "number_partition p part =
     map (\<lambda>(j, r). (to_long (monotonically_increasing_id p j + 1), r)) (enumerate 0 part)"

definition with_songplay_id :: "'r list list \<Rightarrow> (int \<times> 'r) list list" where
  "with_songplay_id parts = map (\<lambda>(p, part). number_partition p part) (enumerate 0 parts)"

section \<open>The transform job (etl.py)\<close>

definition tables :: "string list" where
  "tables = [''songs'', ''artists'', ''users'', ''time'', ''songplays'']"

subsection \<open>\<open>process_song_data\<close>\<close>

text \<open>\<open>df.select(["song_id", "title", "artist_id", "year", "duration"])\<close>.\<close>

definition select_songs :: "song_data \<Rightarrow> songs_row" where
  "select_songs r =
     \<lparr>songs_row.song_id = song_data.song_id r, songs_row.title = song_data.title r,
      songs_row.artist_id = song_data.artist_id r, songs_row.year = song_data.year r,
      songs_row.duration = song_data.duration r\<rparr>"

text \<open>The \<open>selectExpr\<close> of the artists table, with its renamings.\<close>

definition select_artists :: "song_data \<Rightarrow> artists_row" where
  "select_artists r =
     \<lparr>artists_row.artist_id = song_data.artist_id r, name = artist_name r,
      artists_row.location = artist_location r, latitude = artist_latitude r,
      longitude = artist_longitude r\<rparr>"

definition songs_table_of :: "song_data list \<Rightarrow> songs_row list" where
  "songs_table_of df = dropDuplicates (map select_songs df)"

definition artists_table_of :: "song_data list \<Rightarrow> artists_row list" where
  "artists_table_of df = dropDuplicates (map select_artists df)"

text \<open>
  The argument \<open>input\<close> is the content of the records found at the input path, as the
  PERMISSIVE reader presents them.  The result is the store as the call leaves it and
  either the error that was raised or nothing.
\<close>

definition process_song_data ::
  "engine \<Rightarrow> song_data list \<Rightarrow> string \<Rightarrow> store \<Rightarrow> store \<times> (error + unit)" where
  "process_song_data spark input output fs =
     (if fails spark ReadSongData then (fs, Inl (ReadError ''song_data''))
      else
        let df = input in
        (case write_parquet spark WriteSongs (path_join output ''songs'')
                (SongsTable (songs_table_of df)) fs of
           (fs1, Inl e) \<Rightarrow> (fs1, Inl e)
         | (fs1, Inr _) \<Rightarrow>
             write_parquet spark WriteArtists (path_join output ''artists'')
               (ArtistsTable (artists_table_of df)) fs1))"

subsection \<open>\<open>process_log_data\<close>\<close>

text \<open>\<open>.where(F.col("page") == "NextSong")\<close>.\<close>

definition next_song :: "log_data list \<Rightarrow> log_data list" where
  "next_song input = where_rows (\<lambda>r. sql_eq (page r) (Some ''NextSong'')) input"

definition select_users :: "log_data \<Rightarrow> users_row" where
  "select_users r =
     \<lparr>users_row.user_id = userId r, first_name = firstName r, last_name = lastName r,
      users_row.gender = log_data.gender r, users_row.level = log_data.level r\<rparr>"

definition users_table_of :: "log_data list \<Rightarrow> users_row list" where
  "users_table_of df = dropDuplicates (map select_users df)"

text \<open>
  \<open>df.withColumn("start_time", F.to_timestamp(F.from_unixtime(df["ts"]/1000),
  format = "YYYY-MM-dd HH:mm:ss"))\<close>.
\<close>

definition with_start_time :: "engine \<Rightarrow> log_data \<Rightarrow> log_event" where
  "with_start_time spark r =
     log_data.extend r
       (log_event.fields
          (to_timestamp spark (from_unixtime spark (divide spark (ts r) 1000))
             ''YYYY-MM-dd HH:mm:ss''))"

definition select_time :: "engine \<Rightarrow> log_event \<Rightarrow> time_row" where
  "select_time spark r =
     \<lparr>time_row.start_time = log_event.start_time r,
      hour = hour_of spark (log_event.start_time r),
      day = dayofmonth spark (log_event.start_time r),
      week = weekofyear spark (log_event.start_time r),
      month = month_of spark (log_event.start_time r),
      time_row.year = year_of spark (log_event.start_time r),
      weekday = dayofweek spark (log_event.start_time r)\<rparr>"

definition time_table_of :: "engine \<Rightarrow> log_event list \<Rightarrow> time_row list" where
  "time_table_of spark df = dropDuplicates (map (select_time spark) df)"

text \<open>\<open>df.join(df_songs, df.song == df_songs.title, how = "inner")\<close>.\<close>

definition join_songs :: "log_event list \<Rightarrow> songs_row list \<Rightarrow> (log_event \<times> songs_row) list" where
  "join_songs df df_songs = join_inner (\<lambda>e s. sql_eq (song e) (songs_row.title s)) df df_songs"

text \<open>The \<open>select\<close> of the songplays table, on a joined row with its id.\<close>

definition select_songplays :: "int \<times> log_event \<times> songs_row \<Rightarrow> songplays_row" where
  "select_songplays x =
     (case x of (i, e, s) \<Rightarrow>
        \<lparr>songplay_id = i, songplays_row.start_time = log_event.start_time e,
         songplays_row.user_id = userId e, songplays_row.level = log_data.level e,
         songplays_row.song_id = songs_row.song_id s,
         songplays_row.artist_id = songs_row.artist_id s,
         session_id = sessionId e, songplays_row.location = log_data.location e,
         user_agent = userAgent e\<rparr>)"

definition songplays_table_of ::
  "engine \<Rightarrow> log_event list \<Rightarrow> songs_row list \<Rightarrow> songplays_row list list" where
  "songplays_table_of spark df df_songs =
     map (map select_songplays)
       (with_songplay_id (join_partitions spark (join_songs df df_songs)))"

text \<open>The last stage: the songs table is read back, joined, numbered and written.\<close>

definition songplays_stage ::
  "engine \<Rightarrow> log_event list \<Rightarrow> string \<Rightarrow> store \<Rightarrow> store \<times> (error + unit)" where
  "songplays_stage spark df output fs =
     (case read_parquet spark ReadSongs (path_join output ''songs'') fs of
        Inl e \<Rightarrow> (fs, Inl e)
      | Inr (SongsTable df_songs) \<Rightarrow>
          if fails spark JoinSongs then (fs, Inl JoinError)
          else write_parquet spark WriteSongplays (path_join output ''songplays'')
                 (SongplaysTable (songplays_table_of spark df df_songs)) fs
      | Inr _ \<Rightarrow> (fs, Inl (SchemaError (path_join output ''songs''))))"

definition process_log_data ::
  "engine \<Rightarrow> log_data list \<Rightarrow> string \<Rightarrow> store \<Rightarrow> store \<times> (error + unit)" where
  "process_log_data spark input output fs =
     (if fails spark ReadLogData then (fs, Inl (ReadError ''log_data''))
      else
        let df = next_song input in
        (case write_parquet spark WriteUsers (path_join output ''users'')
                (UsersTable (users_table_of df)) fs of
           (fs1, Inl e) \<Rightarrow> (fs1, Inl e)
         | (fs1, Inr _) \<Rightarrow>
             let df = map (with_start_time spark) df in
             (case write_parquet spark WriteTime (path_join output ''time'')
                     (TimeTable (time_table_of spark df)) fs1 of
                (fs2, Inl e) \<Rightarrow> (fs2, Inl e)
              | (fs2, Inr _) \<Rightarrow> songplays_stage spark df output fs2)))"

subsection \<open>\<open>main\<close>\<close>

text \<open>
  What the count-and-report loop hands to the logger, one record for each pass of the
  loop: the row count of a table, or the exception that was caught.
\<close>

datatype log_record = Info string nat | Error error

fun count_rows :: "engine \<Rightarrow> string \<Rightarrow> store \<Rightarrow> string list \<Rightarrow> log_record list" where
  "count_rows spark output fs [] = []"
| "count_rows spark output fs (t # rest) =
     (case read_parquet spark (CountRead t) (path_join output t) fs of
        Inr df \<Rightarrow> Info t (count df)
      | Inl e \<Rightarrow> Error e)
     # count_rows spark output fs rest"

text \<open>The two transformers, in the order of \<open>main\<close>; an error of the first ends the job.\<close>

definition transform ::
  "engine \<Rightarrow> song_data list \<Rightarrow> log_data list \<Rightarrow> string \<Rightarrow> store \<Rightarrow> store \<times> (error + unit)" where
  "transform spark song_input log_input output fs =
     (case process_song_data spark song_input output fs of
        (fs1, Inl e) \<Rightarrow> (fs1, Inl e)
      | (fs1, Inr _) \<Rightarrow> process_log_data spark log_input output fs1)"

text \<open>
  \<open>main\<close>: the store it leaves, the records of the count loop (none when a transformer
  raised, since the loop is then never reached) and the outcome of the process.
\<close>

definition main ::
  "engine \<Rightarrow> song_data list \<Rightarrow> log_data list \<Rightarrow> string \<Rightarrow> store
     \<Rightarrow> store \<times> log_record list \<times> (error + unit)" where
  "main spark song_input log_input output fs =
     (case transform spark song_input log_input output fs of
        (fs1, Inl e) \<Rightarrow> (fs1, [], Inl e)
      | (fs1, Inr _) \<Rightarrow> (fs1, count_rows spark output fs1 tables, Inr ()))"

section \<open>The launcher (run.py)\<close>

text \<open>
  The exceptions that matter to the launcher: the one its handler names, any other one a
  client call may raise, and the one Python raises when a local variable is read before
  it was ever assigned.
\<close>

datatype exn = ClientError string | OtherError string | UnboundLocalError string

text \<open>What the launcher does to the outside world, in order.\<close>

datatype event = Print string | UploadFile string string string | RunJobFlow

text \<open>
  The two client calls are parameters: \<open>upload_file\<close> applied to file name, bucket and
  object name, and \<open>run_job_flow\<close> applied to the fixed request, which answers with the
  \<open>ClusterArn\<close> entry of its response, if any.
\<close>

record 'r aws =
  upload_file :: "string \<Rightarrow> string \<Rightarrow> string \<Rightarrow> exn + 'r"
  run_job_flow :: "exn + string option"

definition files :: "string list" where
  "files = [''etl.py'', ''dl.cfg'']"

text \<open>
  The loop of \<open>upload_files\<close>.  The local variable \<open>response\<close> is \<open>None\<close> as long as no
  assignment to it has been executed.  Only \<open>ClientError\<close> is handled.
\<close>

fun upload_loop :: "'r aws \<Rightarrow> string \<Rightarrow> string list \<Rightarrow> 'r option \<Rightarrow> event list \<times> (exn + 'r option)" where
  "upload_loop s3 bucket [] response = ([], Inr response)"
| "upload_loop s3 bucket (file_name # rest) response =
     (let object_name = file_name;
          started = [Print (''UPLOADING '' @ file_name @ ''...''),
                     UploadFile file_name bucket object_name]
      in case upload_file s3 file_name bucket object_name of
           Inr r \<Rightarrow>
             (case upload_loop s3 bucket rest (Some r) of
                (out, res) \<Rightarrow> (started @ [Print ''DONE!''] @ out, res))
         | Inl (ClientError e) \<Rightarrow>
             (case upload_loop s3 bucket rest response of
                (out, res) \<Rightarrow> (started @ [Print e] @ out, res))
         | Inl x \<Rightarrow> (started, Inl x))"

text \<open>\<open>return response\<close> reads the variable: unbound, it raises.\<close>

definition upload_files :: "'r aws \<Rightarrow> string list \<Rightarrow> string \<Rightarrow> event list \<times> (exn + 'r)" where
  "upload_files s3 fs bucket =
     (case upload_loop s3 bucket fs None of
        (out, Inl x) \<Rightarrow> (out, Inl x)
      | (out, Inr None) \<Rightarrow> (out, Inl (UnboundLocalError ''response''))
      | (out, Inr (Some r)) \<Rightarrow> (out, Inr r))"

definition create_emr_cluster :: "'r aws \<Rightarrow> event list \<times> (exn + bool)" where
  "create_emr_cluster emr =
     (let started = [Print ''CREATING emr cluster...'', RunJobFlow]
      in case run_job_flow emr of
           Inl x \<Rightarrow> (started, Inl x)
         | Inr arn \<Rightarrow>
             (started @ [Print (''STARTED cluster ''
                                  @ (case arn of None \<Rightarrow> ''None'' | Some a \<Rightarrow> a) @ ''.'')],
              Inr True))"

text \<open>\<open>main\<close> of run.py.\<close>

definition launch :: "'r aws \<Rightarrow> string \<Rightarrow> event list \<times> (exn + unit)" where
  "launch client s3_bucket =
     (case upload_files client files s3_bucket of
        (out, Inl x) \<Rightarrow> (out, Inl x)
      | (out, Inr _) \<Rightarrow>
          (case create_emr_cluster client of
             (out', Inl x) \<Rightarrow> (out @ out', Inl x)
           | (out', Inr _) \<Rightarrow> (out @ out', Inr ())))"

section \<open>Sample inputs\<close>

text \<open>A log record and a catalog record with every field null.\<close>

definition null_event :: log_data where
  "null_event =
     \<lparr>artist = None, auth = None, firstName = None, log_data.gender = None,
      itemInSession = None, lastName = None, length_col = None, log_data.level = None,
      log_data.location = None, method_col = None, page = None, registration = None,
      sessionId = None, song = None, status = None, ts = None, userAgent = None,
      userId = None\<rparr>"

definition null_song :: song_data where
  "null_song =
     \<lparr>song_data.artist_id = None, artist_latitude = None, artist_location = None,
      artist_longitude = None, artist_name = None, song_data.duration = None,
      num_songs = None, song_data.song_id = None, song_data.title = None,
      song_data.year = None\<rparr>"

definition play_event :: log_data where
  "play_event =
     null_event\<lparr>page := Some ''NextSong'', song := Some ''Fix You'',
       ts := Some ''1542242870796'', userId := Some ''26'', sessionId := Some 100,
       log_data.level := Some ''free'', firstName := Some ''Ryan''\<rparr>"

definition home_event :: log_data where
  "home_event = play_event\<lparr>page := Some ''Home''\<rparr>"

definition catalog_song :: song_data where
  "catalog_song =
     null_song\<lparr>song_data.title := Some ''Fix You'', song_data.song_id := Some ''SOXYZ123'',
       song_data.artist_id := Some ''ARXYZ456'', song_data.year := Some 2005\<rparr>"

text \<open>
  An engine that never raises, knows no calendar and lays the join out in one partition;
  and one that leaves the first of two partitions empty.
\<close>

definition plain_engine :: engine where
  "plain_engine =
     \<lparr>fails = (\<lambda>s. False), leftover = (\<lambda>p t. t), divide = (\<lambda>c n. None),
      from_unixtime = (\<lambda>d. None), to_timestamp = (\<lambda>c f. None), hour_of = (\<lambda>t. None),
      dayofmonth = (\<lambda>t. None), weekofyear = (\<lambda>t. None), month_of = (\<lambda>t. None),
      year_of = (\<lambda>t. None), dayofweek = (\<lambda>t. None), join_partitions = (\<lambda>xs. [xs])\<rparr>"

definition skewed_engine :: engine where
  "skewed_engine = plain_engine\<lparr>join_partitions := (\<lambda>xs. [[], xs])\<rparr>"

text \<open>A client whose uploads are all refused, and one whose calls all succeed.\<close>

definition refusing_client :: "unit aws" where
  "refusing_client =
     \<lparr>upload_file = (\<lambda>f b k. Inl (ClientError ''AccessDenied'')),
      run_job_flow = Inr (Some ''arn:cluster'')\<rparr>"

definition working_client :: "unit aws" where
  "working_client =
     \<lparr>upload_file = (\<lambda>f b k. Inr ()), run_job_flow = Inr (Some ''arn:cluster'')\<rparr>"

section \<open>Paths and the store\<close>

lemma path_join_eq_iff:
  "b \<noteq> [] \<Longrightarrow> hd b \<noteq> CHR ''/'' \<Longrightarrow> b' \<noteq> [] \<Longrightarrow> hd b' \<noteq> CHR ''/'' \<Longrightarrow>
   path_join a b = path_join a b' \<longleftrightarrow> b = b'"
  by (simp add: path_join_def)

lemma paths_distinct:
  "path_join out ''songs'' \<noteq> path_join out ''artists''"
  "path_join out ''songs'' \<noteq> path_join out ''users''"
  "path_join out ''songs'' \<noteq> path_join out ''time''"
  "path_join out ''songs'' \<noteq> path_join out ''songplays''"
  "path_join out ''artists'' \<noteq> path_join out ''users''"
  "path_join out ''artists'' \<noteq> path_join out ''time''"
  "path_join out ''artists'' \<noteq> path_join out ''songplays''"
  "path_join out ''users'' \<noteq> path_join out ''time''"
  "path_join out ''users'' \<noteq> path_join out ''songplays''"
  "path_join out ''time'' \<noteq> path_join out ''songplays''"
  by (simp_all add: path_join_eq_iff)

lemmas paths_distinct' = paths_distinct paths_distinct [symmetric]

lemma write_parquet_Inr:
  "write_parquet spark s p t fs = (fs', Inr u) \<longleftrightarrow> \<not> fails spark s \<and> fs' = fs(p \<mapsto> t)"
  by (auto simp: write_parquet_def)

lemma process_song_data_Inr:
  "process_song_data spark input out fs = (fs', Inr u) \<longleftrightarrow>
     \<not> fails spark ReadSongData \<and> \<not> fails spark WriteSongs \<and> \<not> fails spark WriteArtists \<and>
     fs' = fs(path_join out ''songs'' \<mapsto> SongsTable (songs_table_of input),
              path_join out ''artists'' \<mapsto> ArtistsTable (artists_table_of input))"
  by (auto simp: process_song_data_def write_parquet_def)

lemma songplays_stage_Inr:
  "songplays_stage spark df out fs = (fs', Inr u) \<longleftrightarrow>
     \<not> fails spark ReadSongs \<and> \<not> fails spark JoinSongs \<and> \<not> fails spark WriteSongplays \<and>
     (\<exists>df_songs. fs (path_join out ''songs'') = Some (SongsTable df_songs) \<and>
        fs' = fs(path_join out ''songplays'' \<mapsto> SongplaysTable (songplays_table_of spark df df_songs)))"
  by (auto simp: songplays_stage_def read_parquet_def write_parquet_def
           split: option.splits table.splits)

lemma songplays_stage_frame:
  "p \<noteq> path_join out ''songplays'' \<Longrightarrow> fst (songplays_stage spark df out fs) p = fs p"
  by (auto simp: songplays_stage_def read_parquet_def write_parquet_def
           split: option.splits table.splits)

lemma process_log_data_stage:
  "\<not> fails spark ReadLogData \<Longrightarrow> \<not> fails spark WriteUsers \<Longrightarrow> \<not> fails spark WriteTime \<Longrightarrow>
   process_log_data spark input out fs =
     songplays_stage spark (map (with_start_time spark) (next_song input)) out
       (fs(path_join out ''users'' \<mapsto> UsersTable (users_table_of (next_song input)),
           path_join out ''time'' \<mapsto>
             TimeTable (time_table_of spark (map (with_start_time spark) (next_song input)))))"
  by (simp add: process_log_data_def write_parquet_def Let_def)

lemma process_log_data_Inr:
  "process_log_data spark input out fs = (fs', Inr u) \<longleftrightarrow>
     \<not> fails spark ReadLogData \<and> \<not> fails spark WriteUsers \<and> \<not> fails spark WriteTime \<and>
     \<not> fails spark ReadSongs \<and> \<not> fails spark JoinSongs \<and> \<not> fails spark WriteSongplays \<and>
     (\<exists>df_songs. fs (path_join out ''songs'') = Some (SongsTable df_songs) \<and>
        fs' = fs(path_join out ''users'' \<mapsto> UsersTable (users_table_of (next_song input)),
                 path_join out ''time'' \<mapsto>
                   TimeTable (time_table_of spark (map (with_start_time spark) (next_song input))),
                 path_join out ''songplays'' \<mapsto>
                   SongplaysTable (songplays_table_of spark
                     (map (with_start_time spark) (next_song input)) df_songs)))"
proof (cases "fails spark ReadLogData \<or> fails spark WriteUsers \<or> fails spark WriteTime")
  case True
  then show ?thesis
    by (auto simp: process_log_data_def write_parquet_def Let_def)
next
  case False
  then show ?thesis
    by (simp add: process_log_data_stage songplays_stage_Inr paths_distinct')
qed

lemma transform_Inr:
  "transform spark si li out fs = (fs', Inr u) \<longleftrightarrow>
     \<not> fails spark ReadSongData \<and> \<not> fails spark WriteSongs \<and> \<not> fails spark WriteArtists \<and>
     \<not> fails spark ReadLogData \<and> \<not> fails spark WriteUsers \<and> \<not> fails spark WriteTime \<and>
     \<not> fails spark ReadSongs \<and> \<not> fails spark JoinSongs \<and> \<not> fails spark WriteSongplays \<and>
     fs' = fs(path_join out ''songs'' \<mapsto> SongsTable (songs_table_of si),
              path_join out ''artists'' \<mapsto> ArtistsTable (artists_table_of si),
              path_join out ''users'' \<mapsto> UsersTable (users_table_of (next_song li)),
              path_join out ''time'' \<mapsto>
                TimeTable (time_table_of spark (map (with_start_time spark) (next_song li))),
              path_join out ''songplays'' \<mapsto>
                SongplaysTable (songplays_table_of spark
                  (map (with_start_time spark) (next_song li)) (songs_table_of si)))"
proof -
  obtain fs1 r1 where p1: "process_song_data spark si out fs = (fs1, r1)"
    by (cases "process_song_data spark si out fs")
  show ?thesis
  proof (cases r1)
    case (Inl e)
    with p1 have "fails spark ReadSongData \<or> fails spark WriteSongs \<or> fails spark WriteArtists"
      by (auto simp: process_song_data_def write_parquet_def split: if_splits)
    with p1 Inl show ?thesis by (auto simp: transform_def)
  next
    case (Inr v)
    with p1 have ok: "\<not> fails spark ReadSongData \<and> \<not> fails spark WriteSongs \<and> \<not> fails spark WriteArtists"
      and fs1: "fs1 = fs(path_join out ''songs'' \<mapsto> SongsTable (songs_table_of si),
              path_join out ''artists'' \<mapsto> ArtistsTable (artists_table_of si))"
      by (simp_all add: process_song_data_Inr)
    have "transform spark si li out fs = process_log_data spark li out fs1"
      using p1 Inr by (simp add: transform_def)
    then show ?thesis
      using ok by (auto simp: process_log_data_Inr fs1 paths_distinct')
  qed
qed

section \<open>Evaluation of the job\<close>

lemma main_Inr:
  "main spark si li out fs = (fs', recs, Inr u) \<longleftrightarrow>
     transform spark si li out fs = (fs', Inr ()) \<and> recs = count_rows spark out fs' tables"
  by (auto simp: main_def split: prod.splits sum.splits)

lemma count_rows_map:
  "count_rows spark out fs names =
     map (\<lambda>t. case read_parquet spark (CountRead t) (path_join out t) fs of
                 Inr df \<Rightarrow> Info t (count df) | Inl e \<Rightarrow> Error e) names"
  by (induction names) simp_all

lemma transform_no_failure:
  assumes "\<not> fails spark ReadSongData" "\<not> fails spark WriteSongs" "\<not> fails spark WriteArtists"
    "\<not> fails spark ReadLogData" "\<not> fails spark WriteUsers" "\<not> fails spark WriteTime"
    "\<not> fails spark ReadSongs" "\<not> fails spark JoinSongs" "\<not> fails spark WriteSongplays"
  shows "transform spark si li out fs =
     (fs(path_join out ''songs'' \<mapsto> SongsTable (songs_table_of si),
         path_join out ''artists'' \<mapsto> ArtistsTable (artists_table_of si),
         path_join out ''users'' \<mapsto> UsersTable (users_table_of (next_song li)),
         path_join out ''time'' \<mapsto>
           TimeTable (time_table_of spark (map (with_start_time spark) (next_song li))),
         path_join out ''songplays'' \<mapsto>
           SongplaysTable (songplays_table_of spark
             (map (with_start_time spark) (next_song li)) (songs_table_of si))), Inr ())"
  using assms by (simp add: transform_Inr)

lemma plain_engine_simps:
  "fails plain_engine s = False" "join_partitions plain_engine xs = [xs]"
  "to_timestamp plain_engine c f = None" "hour_of plain_engine t = None"
  "dayofmonth plain_engine t = None" "weekofyear plain_engine t = None"
  "month_of plain_engine t = None" "year_of plain_engine t = None"
  "dayofweek plain_engine t = None"
  by (simp_all add: plain_engine_def)

lemma with_start_time_sel [simp]:
  "song (with_start_time spark r) = song r" "userId (with_start_time spark r) = userId r"
  "log_data.level (with_start_time spark r) = log_data.level r"
  "sessionId (with_start_time spark r) = sessionId r"
  "log_data.location (with_start_time spark r) = log_data.location r"
  "userAgent (with_start_time spark r) = userAgent r"
  "page (with_start_time spark r) = page r"
  "log_event.start_time (with_start_time spark r) =
     to_timestamp spark (from_unixtime spark (divide spark (ts r) 1000)) ''YYYY-MM-dd HH:mm:ss''"
  by (simp_all add: with_start_time_def log_data.extend_def log_event.fields_def)

lemma first_id: "to_long (monotonically_increasing_id 0 0 + 1) = 1"
  by (simp add: monotonically_increasing_id_def to_long_def)

lemma number_single: "with_songplay_id [[x]] = [[(1, x)]]"
  by (simp add: with_songplay_id_def number_partition_def first_id)

lemma sample_next_song: "next_song [play_event] = [play_event]"
  by (simp add: next_song_def where_rows_def sql_eq_def play_event_def)

lemma sample_join:
  "join_songs [with_start_time spark play_event] [select_songs catalog_song]
     = [(with_start_time spark play_event, select_songs catalog_song)]"
  by (simp add: join_songs_def join_inner_def sql_eq_def play_event_def select_songs_def
        catalog_song_def)

lemma sample_run:
  "transform plain_engine [catalog_song] [play_event] ''out'' Map.empty =
     ([''out/songs'' \<mapsto> SongsTable [select_songs catalog_song],
       ''out/artists'' \<mapsto> ArtistsTable [select_artists catalog_song],
       ''out/users'' \<mapsto> UsersTable [select_users play_event],
       ''out/time'' \<mapsto> TimeTable [select_time plain_engine (with_start_time plain_engine play_event)],
       ''out/songplays'' \<mapsto> SongplaysTable
          [[select_songplays (1, with_start_time plain_engine play_event, select_songs catalog_song)]]],
      Inr ())"
  by (simp add: transform_no_failure plain_engine_simps path_join_def songs_table_of_def
        artists_table_of_def users_table_of_def time_table_of_def dropDuplicates_def
        sample_next_song songplays_table_of_def sample_join number_single)

lemma set_next_song: "set (next_song input) = {r \<in> set input. page r = Some ''NextSong''}"
  by (auto simp: next_song_def where_rows_def sql_eq_def split: option.splits)

lemma sample_main:
  "main plain_engine [catalog_song] [play_event] ''out'' Map.empty =
     (fst (main plain_engine [catalog_song] [play_event] ''out'' Map.empty),
      fst (snd (main plain_engine [catalog_song] [play_event] ''out'' Map.empty)), Inr ())"
  by (simp add: main_def sample_run)

lemma sample_log_run:
  "process_log_data plain_engine [play_event] ''out''
      [''out/songs'' \<mapsto> SongsTable [select_songs catalog_song]] =
   (fst (process_log_data plain_engine [play_event] ''out''
      [''out/songs'' \<mapsto> SongsTable [select_songs catalog_song]]), Inr ())"
  by (cases "process_log_data plain_engine [play_event] ''out''
      [''out/songs'' \<mapsto> SongsTable [select_songs catalog_song]]")
     (simp add: process_log_data_stage plain_engine_simps songplays_stage_def read_parquet_def
        write_parquet_def path_join_def)

section \<open>The join\<close>

lemma number_partition_rows:
  "x \<in> set (number_partition p part) \<Longrightarrow> snd x \<in> set part"
  by (auto simp: number_partition_def in_set_enumerate_eq)

lemma with_songplay_id_rows:
  "x \<in> set (concat (with_songplay_id parts)) \<Longrightarrow> snd x \<in> set (concat parts)"
  by (auto simp: with_songplay_id_def in_set_enumerate_eq dest!: number_partition_rows)

lemma sql_eq_True: "sql_eq a b = Some True \<longleftrightarrow> (\<exists>t. a = Some t \<and> b = Some t)"
  by (cases a; cases b) (auto simp: sql_eq_def)

lemma join_songs_rows:
  "(e, s) \<in> set (join_songs df df_songs) \<longleftrightarrow>
     e \<in> set df \<and> s \<in> set df_songs \<and> (\<exists>t. song e = Some t \<and> songs_row.title s = Some t)"
  by (auto simp: join_songs_def join_inner_def sql_eq_True)

lemma join_songs_unmatched:
  assumes "\<forall>s \<in> set df_songs. song e = None \<or> songs_row.title s \<noteq> song e"
  shows "join_songs (xs @ e # ys) df_songs = join_songs (xs @ ys) df_songs"
proof -
  have "filter (\<lambda>s. sql_eq (song e) (songs_row.title s) = Some True) df_songs = []"
    using assms by (auto simp: filter_empty_conv sql_eq_True)
  then show ?thesis
    by (simp add: join_songs_def join_inner_def)
qed

lemma songplays_table_rows:
  assumes "keeps_rows spark"
    and "r \<in> set (concat (songplays_table_of spark df df_songs))"
  shows "\<exists>i e s. r = select_songplays (i, e, s) \<and> (e, s) \<in> set (join_songs df df_songs)"
proof -
  from assms(2) obtain x where x: "x \<in> set (concat (with_songplay_id
        (join_partitions spark (join_songs df df_songs))))" and r: "r = select_songplays x"
    by (auto simp: songplays_table_of_def map_concat [symmetric] simp del: map_concat)
  from x have "snd x \<in> set (concat (join_partitions spark (join_songs df df_songs)))"
    by (rule with_songplay_id_rows)
  with assms(1) have "snd x \<in> set (join_songs df df_songs)"
    by (auto simp: keeps_rows_def)
  with r show ?thesis
    by (cases x) auto
qed

lemma select_songplays_sel [simp]:
  "songplays_row.song_id (select_songplays (i, e, s)) = songs_row.song_id s"
  "songplays_row.artist_id (select_songplays (i, e, s)) = songs_row.artist_id s"
  "songplay_id (select_songplays (i, e, s)) = i"
  by (simp_all add: select_songplays_def)

lemma join_single:
  "song e = Some t \<Longrightarrow> songs_row.title s = Some t \<Longrightarrow> join_songs [e] [s] = [(e, s)]"
  by (simp add: join_songs_def join_inner_def sql_eq_def)

section \<open>The ids of the joined rows\<close>

text \<open>Within the range of a 64-bit signed integer nothing wraps.\<close>

lemma to_long_id: "- (2 ^ 63) \<le> x \<Longrightarrow> x < 2 ^ 63 \<Longrightarrow> to_long x = x"
  by (simp add: to_long_def)

text \<open>
  The id of row \<open>j\<close> of partition \<open>p\<close>, both counted from 0, for fewer than \<open>2^30\<close>
  partitions of fewer than \<open>2^33\<close> rows each.
\<close>

lemma songplay_id_value:
  assumes "p < 2 ^ 30" and "Suc j < 2 ^ 33"
  shows "to_long (monotonically_increasing_id p j + 1) = int p * 2 ^ 33 + int j + 1"
proof -
  from assms(1) have p: "int p * 2 ^ 33 \<le> 2 ^ 63 - 2 ^ 33"
    by simp
  have 1: "to_long (int p * 2 ^ 33) = int p * 2 ^ 33"
    using p by (intro to_long_id) simp_all
  have 2: "to_long (int p * 2 ^ 33 + int j) = int p * 2 ^ 33 + int j"
    using p assms(2) by (intro to_long_id) simp_all
  have 3: "to_long (int p * 2 ^ 33 + int j + 1) = int p * 2 ^ 33 + int j + 1"
    using p assms(2) by (intro to_long_id) simp_all
  show ?thesis
    by (simp only: monotonically_increasing_id_def 1 2 3)
qed

lemma number_partition_ids:
  assumes "p < 2 ^ 30" and "length part < 2 ^ 33"
  shows "map fst (number_partition p part)
           = map (\<lambda>j. int p * 2 ^ 33 + int j + 1) [0..<length part]"
proof (rule nth_equalityI)
  show "length (map fst (number_partition p part))
          = length (map (\<lambda>j. int p * 2 ^ 33 + int j + 1) [0..<length part])"
    by (simp add: number_partition_def)
next
  fix j assume "j < length (map fst (number_partition p part))"
  then have j: "j < length part"
    by (simp add: number_partition_def)
  with assms(2) have "Suc j < 2 ^ 33" by simp
  with assms(1) j show "map fst (number_partition p part) ! j
          = map (\<lambda>j. int p * 2 ^ 33 + int j + 1) [0..<length part] ! j"
    by (simp add: number_partition_def nth_enumerate_eq songplay_id_value)
qed

lemma ids_increasing:
  assumes "\<forall>part \<in> set parts. length part < 2 ^ 33" and "k + length parts \<le> 2 ^ 30"
  shows "sorted_wrt (<) (concat (map (\<lambda>(p, part). map fst (number_partition p part))
                                   (enumerate k parts))) \<and>
         (\<forall>i \<in> set (concat (map (\<lambda>(p, part). map fst (number_partition p part))
                                   (enumerate k parts))). int k * 2 ^ 33 < i)"
  using assms
proof (induction parts arbitrary: k)
  case Nil
  then show ?case by simp
next
  case (Cons part rest)
  from Cons.prems have k: "k < 2 ^ 30" and len: "length part < 2 ^ 33"
    and rest: "\<forall>part \<in> set rest. length part < 2 ^ 33" "Suc k + length rest \<le> 2 ^ 30"
    by simp_all
  let ?here = "map fst (number_partition k part)"
  let ?later = "concat (map (\<lambda>(p, part). map fst (number_partition p part))
                          (enumerate (Suc k) rest))"
  have here: "?here = map (\<lambda>j. int k * 2 ^ 33 + int j + 1) [0..<length part]"
    using k len by (rule number_partition_ids)
  have "sorted_wrt (<) ?here"
    unfolding here by (simp add: sorted_wrt_map sorted_wrt_mono_rel [OF _ sorted_wrt_upt])
  moreover have bounds: "\<forall>i \<in> set ?here. int k * 2 ^ 33 < i \<and> i \<le> int (Suc k) * 2 ^ 33"
    unfolding here using len by auto
  moreover from Cons.IH [OF rest] have later: "sorted_wrt (<) ?later"
    "\<forall>i \<in> set ?later. int (Suc k) * 2 ^ 33 < i"
    by simp_all
  ultimately have "sorted_wrt (<) (?here @ ?later)"
    by (fastforce simp: sorted_wrt_append)
  moreover have "\<forall>i \<in> set (?here @ ?later). int k * 2 ^ 33 < i"
    using bounds later(2) by fastforce
  ultimately show ?case
    by simp
qed

lemma songplay_id_select: "songplay_id (select_songplays x) = fst x"
  by (cases x) (simp add: select_songplays_def)

lemma stored_ids:
  "map songplay_id (concat (map (map select_songplays) (with_songplay_id jp)))
     = concat (map (\<lambda>(p, part). map fst (number_partition p part)) (enumerate 0 jp))"
  by (simp add: map_concat with_songplay_id_def comp_def songplay_id_select case_prod_unfold)

lemma stored_shape:
  "length (with_songplay_id jp) = length jp"
  "p < length jp \<Longrightarrow> with_songplay_id jp ! p = number_partition p (jp ! p)"
  "length (number_partition p part) = length part"
  by (simp_all add: with_songplay_id_def nth_enumerate_eq number_partition_def)

lemma number_skewed: "with_songplay_id [[], [x]] = [[], [(8589934593, x)]]"
  by (simp add: with_songplay_id_def number_partition_def monotonically_increasing_id_def
        to_long_def)

lemma skewed_engine_simps:
  "fails skewed_engine s = False" "join_partitions skewed_engine xs = [[], xs]"
  "to_timestamp skewed_engine c f = None"
  by (simp_all add: skewed_engine_def plain_engine_def)

lemma sample_log_store:
  "fst (process_log_data plain_engine [play_event] ''out''
      [''out/songs'' \<mapsto> SongsTable [select_songs catalog_song]]) (path_join ''out'' ''songplays'')
   = Some (SongplaysTable
        [[select_songplays (1, with_start_time plain_engine play_event, select_songs catalog_song)]])"
  by (simp add: process_log_data_stage plain_engine_simps songplays_stage_def read_parquet_def
        write_parquet_def path_join_def sample_next_song songplays_table_of_def sample_join
        number_single)

text \<open>Beyond that many partitions the shifted partition index wraps to a negative id.\<close>

lemma id_wraps_beyond_limit:
  "to_long (monotonically_increasing_id (2 ^ 30) 0 + 1) = - 9223372036854775807"
  by (simp add: monotonically_increasing_id_def to_long_def)

section \<open>Properties of the transform job\<close>

text \<open>
  C1, as amended.  Let the engine lay out no rows but those of the join, and let the event
  transformer end normally.  Every row of the songplays table is the projection of a
  NextSong record of the input joined with a row of the songs table whose title is not
  null and equals the song of the record, and the song id of the row is the song id of
  that songs row, null if that one is null.  Conversely, a record whose song is null or
  is the title of no songs row contributes nothing: without it the songplays table is
  the same.
\<close>

theorem songplays_inner_join:
  assumes "keeps_rows spark"
    and "process_log_data spark input output fs = (fs', Inr ())"
  shows "\<exists>df_songs parts.
           fs (path_join output ''songs'') = Some (SongsTable df_songs) \<and>
           fs' (path_join output ''songplays'') = Some (SongplaysTable parts) \<and>
           (\<forall>r \<in> set (concat parts). \<exists>e \<in> set input. \<exists>s \<in> set df_songs. \<exists>t.
              page e = Some ''NextSong'' \<and> song e = Some t \<and> songs_row.title s = Some t \<and>
              songplays_row.song_id r = songs_row.song_id s \<and>
              r = select_songplays (songplay_id r, with_start_time spark e, s)) \<and>
           (\<forall>before e after.
              input = before @ e # after \<and>
              (\<forall>s \<in> set df_songs. song e = None \<or> songs_row.title s \<noteq> song e) \<longrightarrow>
              fst (process_log_data spark (before @ after) output fs) (path_join output ''songplays'')
                = Some (SongplaysTable parts))"
proof -
  let ?df = "\<lambda>input. map (with_start_time spark) (next_song input)"
  from assms(2) obtain df_songs where
    ok: "\<not> fails spark ReadLogData" "\<not> fails spark WriteUsers" "\<not> fails spark WriteTime"
      "\<not> fails spark ReadSongs" "\<not> fails spark JoinSongs" "\<not> fails spark WriteSongplays"
    and songs: "fs (path_join output ''songs'') = Some (SongsTable df_songs)"
    and fs': "fs' (path_join output ''songplays'')
                = Some (SongplaysTable (songplays_table_of spark (?df input) df_songs))"
    by (auto simp: process_log_data_Inr)
  have origin: "\<exists>e \<in> set input. \<exists>s \<in> set df_songs. \<exists>t.
              page e = Some ''NextSong'' \<and> song e = Some t \<and> songs_row.title s = Some t \<and>
              songplays_row.song_id r = songs_row.song_id s \<and>
              r = select_songplays (songplay_id r, with_start_time spark e, s)"
    if "r \<in> set (concat (songplays_table_of spark (?df input) df_songs))" for r
  proof -
    from songplays_table_rows [OF assms(1) that] obtain i e' s
      where r: "r = select_songplays (i, e', s)"
        and j: "(e', s) \<in> set (join_songs (?df input) df_songs)"
      by blast
    from j obtain t where e': "e' \<in> set (?df input)" and s: "s \<in> set df_songs"
      and t: "song e' = Some t" "songs_row.title s = Some t"
      by (auto simp: join_songs_rows)
    from e' obtain e where e: "e \<in> set (next_song input)" "e' = with_start_time spark e"
      by auto
    from e(1) have "e \<in> set input" "page e = Some ''NextSong''"
      by (simp_all add: set_next_song)
    with s t e(2) r show ?thesis
      by auto
  qed
  have unmatched: "fst (process_log_data spark (before @ after) output fs) (path_join output ''songplays'')
                = Some (SongplaysTable (songplays_table_of spark (?df input) df_songs))"
    if "input = before @ e # after"
      and "\<forall>s \<in> set df_songs. song e = None \<or> songs_row.title s \<noteq> song e"
    for before e after
  proof -
    have "join_songs (?df input) df_songs = join_songs (?df (before @ after)) df_songs"
    proof (cases "page e = Some ''NextSong''")
      case True
      then have "?df input = ?df before @ with_start_time spark e # ?df after"
        using that(1) by (simp add: next_song_def where_rows_def sql_eq_def)
      moreover have "?df (before @ after) = ?df before @ ?df after"
        by (simp add: next_song_def where_rows_def)
      ultimately show ?thesis
        using that(2) by (simp add: join_songs_unmatched)
    next
      case False
      then have "next_song input = next_song (before @ after)"
        using that(1) by (auto simp: next_song_def where_rows_def sql_eq_True)
      then show ?thesis by simp
    qed
    then have "songplays_table_of spark (?df (before @ after)) df_songs
                 = songplays_table_of spark (?df input) df_songs"
      by (simp add: songplays_table_of_def)
    moreover obtain fs'' where run: "process_log_data spark (before @ after) output fs = (fs'', Inr ())"
      using ok songs by (simp add: process_log_data_Inr)
    moreover from run songs have "fs'' (path_join output ''songplays'')
        = Some (SongplaysTable (songplays_table_of spark (?df (before @ after)) df_songs))"
      by (auto simp: process_log_data_Inr)
    ultimately show ?thesis
      by simp
  qed
  from songs fs' origin unmatched show ?thesis
    by blast
qed

theorem songplays_inner_join_witness:
  "keeps_rows plain_engine \<and>
   process_log_data plain_engine [play_event] ''out''
      [''out/songs'' \<mapsto> SongsTable [select_songs catalog_song]] =
   (fst (process_log_data plain_engine [play_event] ''out''
      [''out/songs'' \<mapsto> SongsTable [select_songs catalog_song]]), Inr ()) \<and>
   (\<exists>df_songs parts.
      [''out/songs'' \<mapsto> SongsTable [select_songs catalog_song]] (path_join ''out'' ''songs'')
        = Some (SongsTable df_songs) \<and>
      fst (process_log_data plain_engine [play_event] ''out''
             [''out/songs'' \<mapsto> SongsTable [select_songs catalog_song]])
          (path_join ''out'' ''songplays'') = Some (SongplaysTable parts) \<and>
      (\<forall>r \<in> set (concat parts). \<exists>e \<in> set [play_event]. \<exists>s \<in> set df_songs. \<exists>t.
         page e = Some ''NextSong'' \<and> song e = Some t \<and> songs_row.title s = Some t \<and>
         songplays_row.song_id r = songs_row.song_id s \<and>
         r = select_songplays (songplay_id r, with_start_time plain_engine e, s)) \<and>
      (\<forall>before e after.
         [play_event] = before @ e # after \<and>
         (\<forall>s \<in> set df_songs. song e = None \<or> songs_row.title s \<noteq> song e) \<longrightarrow>
         fst (process_log_data plain_engine (before @ after) ''out''
                [''out/songs'' \<mapsto> SongsTable [select_songs catalog_song]])
             (path_join ''out'' ''songplays'') = Some (SongplaysTable parts)))"
proof -
  have k: "keeps_rows plain_engine"
    by (simp add: keeps_rows_def plain_engine_simps)
  show ?thesis
    using k sample_log_run songplays_inner_join [OF k sample_log_run] by blast
qed

text \<open>
  A catalog record that has a title and no song id is matched on its title, and the
  songplays row carries its null song id.
\<close>

theorem songplays_null_song_id_counterexample:
  "fst (transform plain_engine [catalog_song\<lparr>song_data.song_id := None\<rparr>] [play_event]
          ''out'' Map.empty) ''out/songplays''
   = Some (SongplaysTable
       [[\<lparr>songplay_id = 1, songplays_row.start_time = None,
          songplays_row.user_id = Some ''26'', songplays_row.level = Some ''free'',
          songplays_row.song_id = None, songplays_row.artist_id = Some ''ARXYZ456'',
          session_id = Some 100, songplays_row.location = None, user_agent = None\<rparr>]])"
proof -
  let ?song = "catalog_song\<lparr>song_data.song_id := None\<rparr>"
  let ?e = "with_start_time plain_engine play_event"
  have songs: "songs_table_of [?song] = [select_songs ?song]"
    by (simp add: songs_table_of_def dropDuplicates_def)
  have "join_songs [?e] [select_songs ?song] = [(?e, select_songs ?song)]"
    by (rule join_single [where t = "''Fix You''"])
       (simp_all add: play_event_def select_songs_def catalog_song_def)
  then have table: "songplays_table_of plain_engine
                      (map (with_start_time plain_engine) (next_song [play_event]))
                      (songs_table_of [?song])
                    = [[select_songplays (1, ?e, select_songs ?song)]]"
    by (simp add: songplays_table_of_def sample_next_song songs plain_engine_simps number_single)
  have row: "select_songplays (1, ?e, select_songs ?song)
             = \<lparr>songplay_id = 1, songplays_row.start_time = None,
                songplays_row.user_id = Some ''26'', songplays_row.level = Some ''free'',
                songplays_row.song_id = None, songplays_row.artist_id = Some ''ARXYZ456'',
                session_id = Some 100, songplays_row.location = None, user_agent = None\<rparr>"
    by (simp add: select_songplays_def plain_engine_simps select_songs_def catalog_song_def
          null_song_def play_event_def null_event_def)
  show ?thesis
    by (simp add: transform_no_failure plain_engine_simps path_join_def table row)
qed

text \<open>
  C2, as amended.  Let the event transformer end normally and let the songplays table have
  at most \<open>2^30\<close> part files of fewer than \<open>2^33\<close> rows each.  Read in write order, part
  file after part file, the ids are strictly increasing, hence pairwise distinct; row
  \<open>j\<close> of part file \<open>p\<close> (both from 0) has the id \<open>p * 2^33 + j + 1\<close>.  So the first id
  is 1 when the first partition of the joined frame has a row, and the ids are
  consecutive within one partition only.
\<close>

theorem songplay_ids_increasing:
  assumes "process_log_data spark input output fs = (fs', Inr ())"
    and "fs' (path_join output ''songplays'') = Some (SongplaysTable parts)"
    and "length parts \<le> 2 ^ 30"
    and "\<forall>part \<in> set parts. length part < 2 ^ 33"
  shows "sorted_wrt (<) (map songplay_id (concat parts)) \<and>
         distinct (map songplay_id (concat parts)) \<and>
         (\<forall>p < length parts. \<forall>j < length (parts ! p).
            songplay_id (parts ! p ! j) = int p * 2 ^ 33 + int j + 1)"
proof -
  from assms(1,2) obtain df df_songs where "parts = songplays_table_of spark df df_songs"
    by (auto simp: process_log_data_Inr)
  then obtain jp where parts: "parts = map (map select_songplays) (with_songplay_id jp)"
    by (simp add: songplays_table_of_def)
  have len: "length jp = length parts"
    by (simp add: parts stored_shape)
  have lens: "length (jp ! p) = length (parts ! p)" if "p < length jp" for p
    using that by (simp add: parts stored_shape)
  have small: "\<forall>part \<in> set jp. length part < 2 ^ 33"
  proof
    fix part assume "part \<in> set jp"
    then obtain p where p: "p < length jp" "part = jp ! p"
      by (auto simp: in_set_conv_nth)
    then have "parts ! p \<in> set parts"
      by (simp add: len)
    with assms(4) lens [OF p(1)] p(2) show "length part < 2 ^ 33"
      by simp
  qed
  from assms(3) have "0 + length jp \<le> 2 ^ 30"
    by (simp add: len)
  from ids_increasing [OF small this]
  have sorted: "sorted_wrt (<) (map songplay_id (concat parts))"
    by (simp add: parts stored_ids del: map_concat)
  then have "distinct (map songplay_id (concat parts))"
    by (simp add: strict_sorted_iff)
  moreover have "songplay_id (parts ! p ! j) = int p * 2 ^ 33 + int j + 1"
    if "p < length parts" "j < length (parts ! p)" for p j
  proof -
    from that have p: "p < length jp" and j: "j < length (jp ! p)"
      by (simp_all add: len lens)
    from p have "jp ! p \<in> set jp" by simp
    with small j have "Suc j < 2 ^ 33" by fastforce
    moreover from p assms(3) have "p < 2 ^ 30" by (simp add: len)
    ultimately show ?thesis
      using p j
      by (simp add: parts stored_shape songplay_id_select number_partition_def nth_enumerate_eq
            songplay_id_value)
  qed
  ultimately show ?thesis
    using sorted by blast
qed

theorem songplay_ids_increasing_witness:
  "process_log_data plain_engine [play_event] ''out''
      [''out/songs'' \<mapsto> SongsTable [select_songs catalog_song]] =
   (fst (process_log_data plain_engine [play_event] ''out''
      [''out/songs'' \<mapsto> SongsTable [select_songs catalog_song]]), Inr ()) \<and>
   fst (process_log_data plain_engine [play_event] ''out''
      [''out/songs'' \<mapsto> SongsTable [select_songs catalog_song]]) (path_join ''out'' ''songplays'')
   = Some (SongplaysTable
        [[select_songplays (1, with_start_time plain_engine play_event, select_songs catalog_song)]]) \<and>
   length [[select_songplays (1, with_start_time plain_engine play_event, select_songs catalog_song)]]
     \<le> (2::nat) ^ 30 \<and>
   length [select_songplays (1, with_start_time plain_engine play_event,
             select_songs catalog_song)] < (2::nat) ^ 33 \<and>
   songplay_id (select_songplays (1, with_start_time plain_engine play_event,
                  select_songs catalog_song)) = 1"
proof -
  let ?parts = "[[select_songplays (1, with_start_time plain_engine play_event,
                    select_songs catalog_song)]]"
  have small: "length ?parts \<le> (2::nat) ^ 30" "\<forall>part \<in> set ?parts. length part < (2::nat) ^ 33"
    by simp_all
  from songplay_ids_increasing [OF sample_log_run sample_log_store small]
  have "songplay_id (?parts ! 0 ! 0) = int 0 * 2 ^ 33 + int 0 + 1"
    by simp
  then show ?thesis
    using sample_log_run sample_log_store small by simp
qed

text \<open>
  When the engine leaves the first partition of the joined frame empty, the first id that
  is assigned is \<open>2^33 + 1\<close>.
\<close>

theorem songplay_first_id_counterexample:
  "fst (transform skewed_engine [catalog_song] [play_event] ''out'' Map.empty) ''out/songplays''
   = Some (SongplaysTable
       [[],
        [\<lparr>songplay_id = 8589934593, songplays_row.start_time = None,
          songplays_row.user_id = Some ''26'', songplays_row.level = Some ''free'',
          songplays_row.song_id = Some ''SOXYZ123'', songplays_row.artist_id = Some ''ARXYZ456'',
          session_id = Some 100, songplays_row.location = None, user_agent = None\<rparr>]])"
proof -
  let ?e = "with_start_time skewed_engine play_event"
  have songs: "songs_table_of [catalog_song] = [select_songs catalog_song]"
    by (simp add: songs_table_of_def dropDuplicates_def)
  have table: "songplays_table_of skewed_engine
                 (map (with_start_time skewed_engine) (next_song [play_event]))
                 (songs_table_of [catalog_song])
               = [[], [select_songplays (8589934593, ?e, select_songs catalog_song)]]"
    by (simp add: songplays_table_of_def sample_next_song songs sample_join skewed_engine_simps
          number_skewed)
  have row: "select_songplays (8589934593, ?e, select_songs catalog_song)
             = \<lparr>songplay_id = 8589934593, songplays_row.start_time = None,
                songplays_row.user_id = Some ''26'', songplays_row.level = Some ''free'',
                songplays_row.song_id = Some ''SOXYZ123'',
                songplays_row.artist_id = Some ''ARXYZ456'',
                session_id = Some 100, songplays_row.location = None, user_agent = None\<rparr>"
    by (simp add: select_songplays_def skewed_engine_simps select_songs_def catalog_song_def
          null_song_def play_event_def null_event_def)
  show ?thesis
    by (simp add: transform_no_failure skewed_engine_simps path_join_def table row)
qed




text \<open>
  C5.  A log record whose page is not "NextSong" (null included) leaves no trace: the
  transformer behaves exactly as on the input without that record, whatever the other
  fields of the record are, so neither the time table nor the songplays table (nor the
  users table) has a row derived from it.
\<close>

theorem filtered_records_leave_no_trace:
  assumes "page r \<noteq> Some ''NextSong''"
  shows "process_log_data spark (before @ r # after) output fs =
         process_log_data spark (before @ after) output fs"
proof -
  have "next_song (before @ r # after) = next_song (before @ after)"
    using assms by (auto simp: next_song_def where_rows_def sql_eq_def split: option.splits)
  then show ?thesis
    by (simp add: process_log_data_def)
qed

theorem filtered_records_leave_no_trace_witness:
  "page home_event \<noteq> Some ''NextSong'' \<and>
   process_log_data plain_engine ([play_event] @ home_event # [play_event]) ''out'' Map.empty =
   process_log_data plain_engine ([play_event] @ [play_event]) ''out'' Map.empty"
proof -
  have h: "page home_event \<noteq> Some ''NextSong''"
    by (simp add: home_event_def)
  show ?thesis
    using h filtered_records_leave_no_trace [OF h] by blast
qed



text \<open>
  C7.  A second run of the full job on the same inputs, with the same engine, started on
  the store that the first run left, leaves that store as it is and reports the same
  counts: every write replaces what was there, and the songs table that the event
  transformer reads back is the one the catalog transformer of the same run has written.
\<close>

theorem rerun_identical:
  assumes "main spark song_input log_input output fs = (fs', recs, Inr ())"
  shows "main spark song_input log_input output fs' = (fs', recs, Inr ())"
proof -
  from assms have t: "transform spark song_input log_input output fs = (fs', Inr ())"
    and r: "recs = count_rows spark output fs' tables"
    by (simp_all add: main_Inr)
  from t have "transform spark song_input log_input output fs' = (fs', Inr ())"
    by (auto simp: transform_Inr paths_distinct' fun_upd_twist)
  with r show ?thesis
    by (simp add: main_Inr)
qed

theorem rerun_identical_witness:
  "main plain_engine [catalog_song] [play_event] ''out'' Map.empty =
     (fst (main plain_engine [catalog_song] [play_event] ''out'' Map.empty),
      fst (snd (main plain_engine [catalog_song] [play_event] ''out'' Map.empty)), Inr ()) \<and>
   main plain_engine [catalog_song] [play_event] ''out''
       (fst (main plain_engine [catalog_song] [play_event] ''out'' Map.empty)) =
     (fst (main plain_engine [catalog_song] [play_event] ''out'' Map.empty),
      fst (snd (main plain_engine [catalog_song] [play_event] ''out'' Map.empty)), Inr ())"
  using rerun_identical [OF sample_main] sample_main by blast

text \<open>
  C8.  Let the transformers end normally and let the read-back of the count loop fail for
  an arbitrary set \<open>broken\<close> of tables.  The job still ends normally with the same store;
  the loop makes one pass for each of the five tables, in order, and the pass of a table
  whose read failed hands the error to the logger and goes on.
\<close>

theorem count_failures_logged_not_fatal:
  assumes "transform spark song_input log_input output fs = (fs', Inr ())"
  shows "main (spark\<lparr>fails := (\<lambda>s. case s of CountRead t \<Rightarrow> broken t | _ \<Rightarrow> fails spark s)\<rparr>)
           song_input log_input output fs =
         (fs',
          map (\<lambda>t. if broken t then Error (ReadError (path_join output t))
                    else (case fs' (path_join output t) of
                            None \<Rightarrow> Error (ReadError (path_join output t))
                          | Some df \<Rightarrow> Info t (count df))) tables,
          Inr ())"
proof -
  let ?spark = "spark\<lparr>fails := (\<lambda>s. case s of CountRead t \<Rightarrow> broken t | _ \<Rightarrow> fails spark s)\<rparr>"
  have st: "select_time ?spark = select_time spark"
    by (simp add: fun_eq_iff select_time_def)
  have same: "songplays_table_of ?spark = songplays_table_of spark"
    "time_table_of ?spark = time_table_of spark" "with_start_time ?spark = with_start_time spark"
    by (simp_all add: fun_eq_iff songplays_table_of_def time_table_of_def with_start_time_def st)
  from assms have "transform ?spark song_input log_input output fs = (fs', Inr ())"
    by (simp add: transform_Inr same)
  moreover have "count_rows ?spark output fs' tables =
      map (\<lambda>t. if broken t then Error (ReadError (path_join output t))
                else (case fs' (path_join output t) of
                        None \<Rightarrow> Error (ReadError (path_join output t))
                      | Some df \<Rightarrow> Info t (count df))) tables"
    by (simp add: count_rows_map read_parquet_def split: option.splits)
  ultimately show ?thesis
    by (simp add: main_Inr)
qed

theorem count_failures_logged_not_fatal_witness:
  "transform plain_engine [catalog_song] [play_event] ''out'' Map.empty
     = (fst (transform plain_engine [catalog_song] [play_event] ''out'' Map.empty), Inr ()) \<and>
   snd (main (plain_engine\<lparr>fails := (\<lambda>s. case s of CountRead t \<Rightarrow> t = ''users'' | _ \<Rightarrow> fails plain_engine s)\<rparr>)
           [catalog_song] [play_event] ''out'' Map.empty)
     = ([Info ''songs'' 1, Info ''artists'' 1, Error (ReadError ''out/users''), Info ''time'' 1,
         Info ''songplays'' 1], Inr ())"
proof -
  let ?fs' = "fst (transform plain_engine [catalog_song] [play_event] ''out'' Map.empty)"
  have ok: "transform plain_engine [catalog_song] [play_event] ''out'' Map.empty = (?fs', Inr ())"
    by (simp add: sample_run)
  show ?thesis
    using count_failures_logged_not_fatal [OF ok, of "\<lambda>t. t = ''users''"] sample_run
    by (simp add: tables_def path_join_def)
qed

text \<open>
  C10.  When reading the log and writing users and time did not raise, the rest of the
  event transformer is the songplays stage (read-back of songs, join, write of
  songplays), started on a store that already holds the users and the time table; and
  whether that stage raises or not, it leaves both tables as they were written.
\<close>

theorem users_time_before_songplays:
  assumes "\<not> fails spark ReadLogData" and "\<not> fails spark WriteUsers" and "\<not> fails spark WriteTime"
  shows "\<exists>fs2.
           fs2 (path_join output ''users'') = Some (UsersTable (users_table_of (next_song input))) \<and>
           fs2 (path_join output ''time'')
             = Some (TimeTable (time_table_of spark (map (with_start_time spark) (next_song input)))) \<and>
           process_log_data spark input output fs
             = songplays_stage spark (map (with_start_time spark) (next_song input)) output fs2 \<and>
           fst (process_log_data spark input output fs) (path_join output ''users'')
             = fs2 (path_join output ''users'') \<and>
           fst (process_log_data spark input output fs) (path_join output ''time'')
             = fs2 (path_join output ''time'')"
proof -
  let ?df = "map (with_start_time spark) (next_song input)"
  let ?fs2 = "fs(path_join output ''users'' \<mapsto> UsersTable (users_table_of (next_song input)),
                 path_join output ''time'' \<mapsto> TimeTable (time_table_of spark ?df))"
  have stage: "process_log_data spark input output fs = songplays_stage spark ?df output ?fs2"
    using assms by (rule process_log_data_stage)
  have "?fs2 (path_join output ''users'') = Some (UsersTable (users_table_of (next_song input)))"
    by (simp add: paths_distinct')
  moreover have "?fs2 (path_join output ''time'') = Some (TimeTable (time_table_of spark ?df))"
    by simp
  moreover have "fst (process_log_data spark input output fs) (path_join output ''users'')
                   = ?fs2 (path_join output ''users'')"
    unfolding stage by (rule songplays_stage_frame) (rule paths_distinct')
  moreover have "fst (process_log_data spark input output fs) (path_join output ''time'')
                   = ?fs2 (path_join output ''time'')"
    unfolding stage by (rule songplays_stage_frame) (rule paths_distinct')
  ultimately show ?thesis
    using stage by blast
qed

theorem users_time_before_songplays_witness:
  "\<not> fails plain_engine ReadLogData \<and> \<not> fails plain_engine WriteUsers \<and>
   \<not> fails plain_engine WriteTime \<and>
   snd (process_log_data plain_engine [play_event] ''out'' Map.empty) = Inl (ReadError ''out/songs'') \<and>
   (\<exists>fs2.
      fs2 (path_join ''out'' ''users'') = Some (UsersTable (users_table_of (next_song [play_event]))) \<and>
      fs2 (path_join ''out'' ''time'')
        = Some (TimeTable (time_table_of plain_engine
                  (map (with_start_time plain_engine) (next_song [play_event])))) \<and>
      process_log_data plain_engine [play_event] ''out'' Map.empty
        = songplays_stage plain_engine (map (with_start_time plain_engine) (next_song [play_event]))
            ''out'' fs2 \<and>
      fst (process_log_data plain_engine [play_event] ''out'' Map.empty) (path_join ''out'' ''users'')
        = fs2 (path_join ''out'' ''users'') \<and>
      fst (process_log_data plain_engine [play_event] ''out'' Map.empty) (path_join ''out'' ''time'')
        = fs2 (path_join ''out'' ''time''))"
proof -
  have h: "\<not> fails plain_engine ReadLogData" "\<not> fails plain_engine WriteUsers"
    "\<not> fails plain_engine WriteTime"
    by (simp_all add: plain_engine_simps)
  have f: "snd (process_log_data plain_engine [play_event] ''out'' Map.empty)
             = Inl (ReadError ''out/songs'')"
    by (simp add: process_log_data_stage h songplays_stage_def read_parquet_def plain_engine_simps
          path_join_def)
  show ?thesis
    using h f users_time_before_songplays [of plain_engine "''out''" "[play_event]" Map.empty, OF h] by blast
qed

section \<open>Properties of the launcher\<close>

text \<open>
  C9.  When both uploads are refused with a \<open>ClientError\<close>, each refusal is caught and
  printed and the second file is still attempted, but \<open>return response\<close> then reads a
  variable that was never assigned: \<open>upload_files\<close> raises and the launcher ends before
  any cluster is requested.
\<close>

theorem launch_aborts_when_all_uploads_refused:
  "launch refusing_client ''bucket'' =
     ([Print ''UPLOADING etl.py...'', UploadFile ''etl.py'' ''bucket'' ''etl.py'', Print ''AccessDenied'',
       Print ''UPLOADING dl.cfg...'', UploadFile ''dl.cfg'' ''bucket'' ''dl.cfg'', Print ''AccessDenied''],
      Inl (UnboundLocalError ''response''))"
  by (simp add: launch_def upload_files_def files_def refusing_client_def)

end
